theory Spec2Isabelle
  imports Complex_Main
begin

section \<open>NumPy values\<close>

text \<open>
  The module \<^verbatim>\<open>examples/density_pericenter_fit_utils.py\<close> computes with NumPy
  \<^verbatim>\<open>float64\<close> values. A value is modelled as a real number or one of the three IEEE
  specials. Arithmetic on finite values is exact (no rounding, no overflow, no
  underflow); the specials follow IEEE 754 as NumPy implements it, with warnings in
  place of exceptions (NumPy's default error state). The two zeros are identified: every
  divisor of the module is a sum of squares, a power of ten or the constant
  \<^verbatim>\<open>1e7\<close>, so a zero divisor is always \<^verbatim>\<open>+0.0\<close>.

  Exact arithmetic is an idealisation: where \<^verbatim>\<open>float64\<close> rounds, overflows or
  underflows, the module returns another number than these operations do
  (\<^verbatim>\<open>10 ** -400\<close> is \<^verbatim>\<open>0.0\<close> in the module). Statements about which value a
  likelihood returns are therefore made over an arbitrary arithmetic, in the section on
  the likelihoods over an arbitrary arithmetic below; the exact operations serve the
  statements that do not depend on rounding or range.
\<close>

datatype npfloat = Fin real | PInf | NInf | NaN

fun np_isfinite :: "npfloat \<Rightarrow> bool" where
  "np_isfinite (Fin a) = True"
| "np_isfinite PInf = False"
| "np_isfinite NInf = False"
| "np_isfinite NaN = False"

fun np_neg :: "npfloat \<Rightarrow> npfloat" where
  "np_neg (Fin a) = Fin (- a)"
| "np_neg PInf = NInf"
| "np_neg NInf = PInf"
| "np_neg NaN = NaN"

fun np_add :: "npfloat \<Rightarrow> npfloat \<Rightarrow> npfloat" where
  "np_add NaN b = NaN"
| "np_add a NaN = NaN"
| "np_add (Fin a) (Fin b) = Fin (a + b)"
| "np_add PInf NInf = NaN"
| "np_add NInf PInf = NaN"
| "np_add PInf b = PInf"
| "np_add a PInf = PInf"
| "np_add NInf b = NInf"
| "np_add a NInf = NInf"

definition np_sub :: "npfloat \<Rightarrow> npfloat \<Rightarrow> npfloat" where
  "np_sub a b = np_add a (np_neg b)"

text \<open>An infinity scaled by a finite factor: the sign of the factor decides, zero gives NaN.\<close>

definition inf_times :: "npfloat \<Rightarrow> real \<Rightarrow> npfloat" where
  "inf_times i b = (if b = 0 then NaN else if 0 < b then i else np_neg i)"

fun np_mul :: "npfloat \<Rightarrow> npfloat \<Rightarrow> npfloat" where
  "np_mul NaN b = NaN"
| "np_mul a NaN = NaN"
| "np_mul (Fin a) (Fin b) = Fin (a * b)"
| "np_mul (Fin a) PInf = inf_times PInf a"
| "np_mul (Fin a) NInf = inf_times NInf a"
| "np_mul PInf (Fin b) = inf_times PInf b"
| "np_mul NInf (Fin b) = inf_times NInf b"
| "np_mul PInf PInf = PInf"
| "np_mul PInf NInf = NInf"
| "np_mul NInf PInf = NInf"
| "np_mul NInf NInf = PInf"

text \<open>
  Division never raises: a finite value over zero is an infinity of its sign, zero over
  zero and infinity over infinity are NaN.
\<close>

fun np_div :: "npfloat \<Rightarrow> npfloat \<Rightarrow> npfloat" where
  "np_div NaN b = NaN"
| "np_div a NaN = NaN"
| "np_div (Fin a) (Fin b) =
     (if b = 0 then (if a = 0 then NaN else if 0 < a then PInf else NInf)
      else Fin (a / b))"
| "np_div (Fin a) PInf = Fin 0"
| "np_div (Fin a) NInf = Fin 0"
| "np_div PInf (Fin b) = (if 0 \<le> b then PInf else NInf)"
| "np_div NInf (Fin b) = (if 0 \<le> b then NInf else PInf)"
| "np_div PInf PInf = NaN"
| "np_div PInf NInf = NaN"
| "np_div NInf PInf = NaN"
| "np_div NInf NInf = NaN"

text \<open>\<^verbatim>\<open>v ** 2\<close>\<close>

fun np_square :: "npfloat \<Rightarrow> npfloat" where
  "np_square (Fin a) = Fin (a * a)"
| "np_square PInf = PInf"
| "np_square NInf = PInf"
| "np_square NaN = NaN"

text \<open>\<^verbatim>\<open>10 ** v\<close>\<close>

fun np_pow10 :: "npfloat \<Rightarrow> npfloat" where
  "np_pow10 (Fin a) = Fin (10 powr a)"
| "np_pow10 PInf = PInf"
| "np_pow10 NInf = Fin 0"
| "np_pow10 NaN = NaN"

text \<open>\<^verbatim>\<open>np.log\<close>, \<^verbatim>\<open>np.log10\<close> and \<^verbatim>\<open>np.sqrt\<close>\<close>

fun np_log :: "npfloat \<Rightarrow> npfloat" where
  "np_log (Fin a) = (if 0 < a then Fin (ln a) else if a = 0 then NInf else NaN)"
| "np_log PInf = PInf"
| "np_log NInf = NaN"
| "np_log NaN = NaN"

fun np_log10 :: "npfloat \<Rightarrow> npfloat" where
  "np_log10 (Fin a) = (if 0 < a then Fin (log 10 a) else if a = 0 then NInf else NaN)"
| "np_log10 PInf = PInf"
| "np_log10 NInf = NaN"
| "np_log10 NaN = NaN"


text \<open>The comparison \<^verbatim>\<open>a < b\<close>: false as soon as one side is NaN.\<close>

fun np_less :: "npfloat \<Rightarrow> npfloat \<Rightarrow> bool" where
  "np_less NaN b = False"
| "np_less a NaN = False"
| "np_less (Fin a) (Fin b) = (a < b)"
| "np_less a NInf = False"
| "np_less PInf b = False"
| "np_less NInf b = True"
| "np_less a PInf = True"

subsection \<open>Arrays and broadcasting\<close>

text \<open>
  An operand is a scalar (a \<^verbatim>\<open>np.float64\<close>, a 0-d array, or a Python number next
  to a NumPy operand) or a one-dimensional array. A binary operation broadcasts: a
  scalar or an array of length one is stretched to the other operand's length, two
  arrays of the same length are combined entry by entry, and any other pair of shapes
  raises \<^verbatim>\<open>ValueError\<close>. The parameters \<open>q\<close> and \<open>m\<close> are NumPy scalars, as the
  optimiser and the sampler pass them, so every operation of the likelihoods is
  NumPy's and none is Python's own float arithmetic.
\<close>

datatype ndarray = Scalar npfloat | Arr "npfloat list"

datatype np_error = ValueError | TypeError | IndexError

type_synonym 'a res = "np_error + 'a"

definition np_bind :: "'a res \<Rightarrow> ('a \<Rightarrow> 'b res) \<Rightarrow> 'b res" where
  "np_bind r f = (case r of Inl e \<Rightarrow> Inl e | Inr v \<Rightarrow> f v)"

definition np_map :: "(npfloat \<Rightarrow> npfloat) \<Rightarrow> ndarray \<Rightarrow> ndarray" where
  "np_map f a = (case a of Scalar v \<Rightarrow> Scalar (f v) | Arr vs \<Rightarrow> Arr (map f vs))"

fun np_binop :: "(npfloat \<Rightarrow> npfloat \<Rightarrow> npfloat) \<Rightarrow> ndarray \<Rightarrow> ndarray \<Rightarrow> ndarray res" where
  "np_binop f (Scalar a) (Scalar b) = Inr (Scalar (f a b))"
| "np_binop f (Scalar a) (Arr ys) = Inr (Arr (map (f a) ys))"
| "np_binop f (Arr xs) (Scalar b) = Inr (Arr (map (\<lambda>x. f x b) xs))"
| "np_binop f (Arr xs) (Arr ys) =
     (if length xs = length ys then Inr (Arr (map2 f xs ys))
      else if length xs = 1 then Inr (Arr (map (f (hd xs)) ys))
      else if length ys = 1 then Inr (Arr (map (\<lambda>x. f x (hd ys)) xs))
      else Inl ValueError)"

text \<open>
  The in-place \<^verbatim>\<open>a += b\<close>: on an array the result keeps the shape of \<^verbatim>\<open>a\<close>, so
  \<^verbatim>\<open>b\<close> may be stretched and \<^verbatim>\<open>a\<close> may not; on a scalar (immutable) it is
  \<^verbatim>\<open>a = a + b\<close>.
\<close>

fun np_iadd :: "ndarray \<Rightarrow> ndarray \<Rightarrow> ndarray res" where
  "np_iadd (Scalar a) b = np_binop np_add (Scalar a) b"
| "np_iadd (Arr xs) (Scalar b) = Inr (Arr (map (\<lambda>x. np_add x b) xs))"
| "np_iadd (Arr xs) (Arr ys) =
     (if length xs = length ys then Inr (Arr (map2 np_add xs ys))
      else if length ys = 1 then Inr (Arr (map (\<lambda>x. np_add x (hd ys)) xs))
      else Inl ValueError)"

text \<open>
  \<^verbatim>\<open>np.sum\<close>: the sum of all entries, \<^verbatim>\<open>0.0\<close> for an empty array. Addition in
  this model is associative and commutative (lemmas \<open>np_add_assoc\<close> and
  \<open>np_add_commute\<close> below), so the order in which NumPy adds the entries does not
  matter.
\<close>

definition np_sum :: "ndarray \<Rightarrow> npfloat" where
  "np_sum a = (case a of Scalar v \<Rightarrow> v | Arr vs \<Rightarrow> foldr np_add vs (Fin 0))"

section \<open>The model, the prior, the likelihoods and the posteriors\<close>

type_synonym theta = "npfloat \<times> npfloat"

text \<open>\<^verbatim>\<open>f = q + m * x\<close>\<close>

definition log_model :: "ndarray \<Rightarrow> npfloat \<Rightarrow> npfloat \<Rightarrow> ndarray res" where
  "log_model x q m =
     np_bind (np_binop np_mul (Scalar m) x) (\<lambda>mx. np_binop np_add (Scalar q) mx)"

text \<open>
  \<^verbatim>\<open>log_prior = -np.inf\<close>, then
  \<^verbatim>\<open>if -2 < q < 2 and -2 < m < 2 : log_prior = 0.0\<close>
\<close>

definition log_prior :: "theta \<Rightarrow> npfloat" where
  "log_prior th =
     (case th of (q, m) \<Rightarrow>
        if (np_less (Fin (- 2)) q \<and> np_less q (Fin 2))
           \<and> (np_less (Fin (- 2)) m \<and> np_less m (Fin 2))
        then Fin 0 else NInf)"

text \<open>
  The likelihood of the observed data (\<^verbatim>\<open>log_likelihood\<close>). The local
  \<^verbatim>\<open>sigma2\<close> is a definition of its own, so that statements can name the divisor:
  \<^verbatim>\<open>sigma2 = yerr**2 + (m * 10**model) **2 * (xerr / 10**x) **2\<close>
\<close>

definition sigma2 :: "npfloat \<Rightarrow> ndarray \<Rightarrow> ndarray \<Rightarrow> ndarray \<Rightarrow> ndarray \<Rightarrow> ndarray res" where
  "sigma2 m model x xerr yerr =
     np_bind (np_binop np_mul (Scalar m) (np_map np_pow10 model)) (\<lambda>slope.
     np_bind (np_binop np_div xerr (np_map np_pow10 x)) (\<lambda>relx.
     np_bind (np_binop np_mul (np_map np_square slope) (np_map np_square relx)) (\<lambda>varx.
     np_binop np_add (np_map np_square yerr) varx)))"

text \<open>
  \<^verbatim>\<open>ll = (10**y - 10**model) ** 2 / sigma2\<close>, then
  \<^verbatim>\<open>ll += np.log( 2. * np.pi * sigma2 )\<close> and
  \<^verbatim>\<open>log_l = -0.5 * np.sum(ll)\<close>
\<close>

definition log_likelihood :: "theta \<Rightarrow> ndarray \<Rightarrow> ndarray \<Rightarrow> ndarray \<Rightarrow> ndarray \<Rightarrow> npfloat res" where
  "log_likelihood th x y xerr yerr =
     (case th of (q, m) \<Rightarrow>
        np_bind (log_model x q m) (\<lambda>model.
        np_bind (sigma2 m model x xerr yerr) (\<lambda>s2.
        np_bind (np_binop np_sub (np_map np_pow10 y) (np_map np_pow10 model)) (\<lambda>resid.
        np_bind (np_binop np_div (np_map np_square resid) s2) (\<lambda>ll.
        np_bind (np_binop np_mul (Scalar (Fin (2 * pi))) s2) (\<lambda>tps.
        np_bind (np_iadd ll (np_map np_log tps)) (\<lambda>ll'.
        Inr (np_mul (Fin (- (1 / 2))) (np_sum ll')))))))))"

text \<open>
  The likelihood of simulated data (\<^verbatim>\<open>log_likelihood_sim\<close>):
  \<^verbatim>\<open>sigma2 = yerr**2\<close>, the same \<^verbatim>\<open>ll\<close>, and no second term.
\<close>

definition log_likelihood_sim :: "theta \<Rightarrow> ndarray \<Rightarrow> ndarray \<Rightarrow> ndarray \<Rightarrow> npfloat res" where
  "log_likelihood_sim th x y yerr =
     (case th of (q, m) \<Rightarrow>
        np_bind (log_model x q m) (\<lambda>model.
        np_bind (np_binop np_sub (np_map np_pow10 y) (np_map np_pow10 model)) (\<lambda>resid.
        np_bind (np_binop np_div (np_map np_square resid) (np_map np_square yerr)) (\<lambda>ll.
        Inr (np_mul (Fin (- (1 / 2))) (np_sum ll))))))"

text \<open>
  \<^verbatim>\<open>lp = log_prior(theta)\<close>; \<^verbatim>\<open>if not np.isfinite(lp): return -np.inf\<close>;
  \<^verbatim>\<open>return lp + log_likelihood(theta, x, y, xerr, yerr)\<close>
\<close>

definition log_posterior :: "theta \<Rightarrow> ndarray \<Rightarrow> ndarray \<Rightarrow> ndarray \<Rightarrow> ndarray \<Rightarrow> npfloat res" where
  "log_posterior th x y xerr yerr =
     (let lp = log_prior th in
      if \<not> np_isfinite lp then Inr NInf
      else np_bind (log_likelihood th x y xerr yerr) (\<lambda>l. Inr (np_add lp l)))"

definition log_posterior_sim :: "theta \<Rightarrow> ndarray \<Rightarrow> ndarray \<Rightarrow> ndarray \<Rightarrow> npfloat res" where
  "log_posterior_sim th x y yerr =
     (let lp = log_prior th in
      if \<not> np_isfinite lp then Inr NInf
      else np_bind (log_likelihood_sim th x y yerr) (\<lambda>l. Inr (np_add lp l)))"

section \<open>The fits\<close>

text \<open>
  The fits call three libraries: NumPy's global random generator, SciPy's
  \<^verbatim>\<open>minimize\<close> and the \<^verbatim>\<open>emcee\<close> ensemble sampler. Their code is not part of
  the module, so they are parameters of the model, and nothing is assumed about them. A
  call is the record of the arguments the module passes. The state \<open>'g\<close> is the state
  of the global random generator: seeding replaces it, a library call may read and
  change it. \<open>'a\<close> is the tuple of data arrays handed through (\<^verbatim>\<open>args\<close>).
\<close>

record 'a minimize_call =
  mz_fun :: "theta \<Rightarrow> 'a \<Rightarrow> npfloat res"
  mz_x0 :: "npfloat list"
  mz_args :: 'a
  mz_bounds :: "(npfloat \<times> npfloat) list option"

text \<open>
  The sampler is built (\<^verbatim>\<open>EnsembleSampler(nwalkers, ndim, log_prob_fn, args)\<close>), run
  (\<^verbatim>\<open>run_mcmc(pos, nsteps)\<close>) and read
  (\<^verbatim>\<open>get_chain(discard, thin, flat)\<close>); the three calls are one record.
\<close>

record 'a mcmc_call =
  em_nwalkers :: nat
  em_ndim :: nat
  em_log_prob_fn :: "theta \<Rightarrow> 'a \<Rightarrow> npfloat res"
  em_args :: 'a
  em_pos :: "npfloat list list"
  em_nsteps :: nat
  em_discard :: nat
  em_thin :: nat
  em_flat :: bool

text \<open>
  \<open>np_random_seed n\<close> is the generator state after \<^verbatim>\<open>np.random.seed(n)\<close>;
  \<open>np_random_draw g k\<close> is the \<open>k\<close>-th standard normal number drawn from state
  \<open>g\<close>, and \<open>np_random_advance g k\<close> the state after \<open>k\<close> draws.
\<close>

record ('g, 'a) externals =
  np_random_seed :: "nat \<Rightarrow> 'g"
  np_random_draw :: "'g \<Rightarrow> nat \<Rightarrow> real"
  np_random_advance :: "'g \<Rightarrow> nat \<Rightarrow> 'g"
  scipy_minimize :: "'a minimize_call \<Rightarrow> 'g \<Rightarrow> theta res \<times> 'g"
  emcee_chain :: "'a mcmc_call \<Rightarrow> 'g \<Rightarrow> npfloat list list res \<times> 'g"

text \<open>An exception leaves the function at once, with the generator state as it is.\<close>

definition np_try :: "'b res \<Rightarrow> 'g \<Rightarrow> ('b \<Rightarrow> 'c res \<times> 'g) \<Rightarrow> 'c res \<times> 'g" where
  "np_try r g k = (case r of Inl e \<Rightarrow> (Inl e, g) | Inr v \<Rightarrow> k v)"

text \<open>\<^verbatim>\<open>np.random.randn(rows, cols)\<close>\<close>

definition np_random_randn :: "('g, 'a) externals \<Rightarrow> nat \<Rightarrow> nat \<Rightarrow> 'g \<Rightarrow> npfloat list list \<times> 'g" where
  "np_random_randn E rows cols g =
     (map (\<lambda>i. map (\<lambda>j. Fin (np_random_draw E g (i * cols + j))) [0..<cols]) [0..<rows],
      np_random_advance E g (rows * cols))"

text \<open>\<^verbatim>\<open>len(a)\<close>: a scalar has no length.\<close>

definition np_len :: "ndarray \<Rightarrow> nat res" where
  "np_len a = (case a of Scalar v \<Rightarrow> Inl TypeError | Arr vs \<Rightarrow> Inr (length vs))"


text \<open>
  \<^verbatim>\<open>pos = soln.x + 1e-1 * np.random.randn(64, 2)\<close>: the pair \<^verbatim>\<open>soln.x\<close> is added
  to every row.
\<close>

definition walkers_pos :: "theta \<Rightarrow> npfloat list list \<Rightarrow> npfloat list list" where
  "walkers_pos soln z =
     map (\<lambda>row. map2 np_add [fst soln, snd soln] (map (np_mul (Fin (1 / 10))) row)) z"

text \<open>
  \<^verbatim>\<open>run_mcmc\<close> and \<^verbatim>\<open>run_mcmc_sim\<close>. \<^verbatim>\<open>nwalkers, ndim = pos.shape\<close> reads the
  shape of the 64 by 2 array. The process pool the function opens is not handed to the
  sampler, and the timing and the printed lines do not reach the result.
\<close>

definition run_mcmc ::
  "('g, ndarray \<times> ndarray \<times> ndarray \<times> ndarray) externals \<Rightarrow> ndarray \<Rightarrow> ndarray \<Rightarrow> ndarray \<Rightarrow> ndarray
     \<Rightarrow> theta \<Rightarrow> 'g \<Rightarrow> npfloat list list res \<times> 'g" where
  "run_mcmc E x y xerr yerr soln g =
     (case np_random_randn E 64 2 g of (z, g1) \<Rightarrow>
        let pos = walkers_pos soln z in
        emcee_chain E
          \<lparr>em_nwalkers = length pos, em_ndim = length (hd pos),
           em_log_prob_fn = (\<lambda>th (a, b, c, d). log_posterior th a b c d),
           em_args = (x, y, xerr, yerr), em_pos = pos,
           em_nsteps = 2000, em_discard = 100, em_thin = 15, em_flat = True\<rparr> g1)"

definition run_mcmc_sim ::
  "('g, ndarray \<times> ndarray \<times> ndarray) externals \<Rightarrow> ndarray \<Rightarrow> ndarray \<Rightarrow> ndarray
     \<Rightarrow> theta \<Rightarrow> 'g \<Rightarrow> npfloat list list res \<times> 'g" where
  "run_mcmc_sim E x y yerr soln g =
     (case np_random_randn E 64 2 g of (z, g1) \<Rightarrow>
        let pos = walkers_pos soln z in
        emcee_chain E
          \<lparr>em_nwalkers = length pos, em_ndim = length (hd pos),
           em_log_prob_fn = (\<lambda>th (a, b, c). log_posterior_sim th a b c),
           em_args = (x, y, yerr), em_pos = pos,
           em_nsteps = 2000, em_discard = 100, em_thin = 15, em_flat = True\<rparr> g1)"


definition nl_sim :: "theta \<Rightarrow> ndarray \<times> ndarray \<times> ndarray \<Rightarrow> npfloat res" where
  "nl_sim th a = (case a of (x, y, yerr) \<Rightarrow>
     np_bind (log_likelihood_sim th x y yerr) (\<lambda>l. Inr (np_neg l)))"


text \<open>
  \<^verbatim>\<open>run_best_fit_for_sim\<close>, which returns \<^verbatim>\<open>q, m\<close>, and
  \<^verbatim>\<open>run_best_fit_for_sim_with_mcmc\<close>, which samples from there:
  \<^verbatim>\<open>yerr = np.ones(len(y)) * 1e5 / 1e7\<close>,
  \<^verbatim>\<open>bounds = ((-2, 2), (-2, 2))\<close>.
\<close>

definition run_best_fit_for_sim ::
  "('g, ndarray \<times> ndarray \<times> ndarray) externals \<Rightarrow> ndarray \<Rightarrow> ndarray \<Rightarrow> 'g \<Rightarrow> theta res \<times> 'g" where
  "run_best_fit_for_sim E r_p rho_150pc g =
     (let x = np_map np_log10 r_p in
      np_try (np_binop np_div rho_150pc (Scalar (Fin 10000000))) g (\<lambda>d.
      let y = np_map np_log10 d in
      np_try (np_len y) g (\<lambda>n.
      np_try (np_binop np_mul (Arr (replicate n (Fin 1))) (Scalar (Fin 100000))) g (\<lambda>e.
      np_try (np_binop np_div e (Scalar (Fin 10000000))) g (\<lambda>yerr.
      scipy_minimize E
        \<lparr>mz_fun = nl_sim, mz_x0 = [Fin 1, Fin 0], mz_args = (x, y, yerr),
         mz_bounds = Some [(Fin (- 2), Fin 2), (Fin (- 2), Fin 2)]\<rparr>
        (np_random_seed E 42))))))"

definition run_best_fit_for_sim_with_mcmc ::
  "('g, ndarray \<times> ndarray \<times> ndarray) externals \<Rightarrow> ndarray \<Rightarrow> ndarray \<Rightarrow> 'g
     \<Rightarrow> npfloat list list res \<times> 'g" where
  "run_best_fit_for_sim_with_mcmc E r_p rho_150pc g =
     (let x = np_map np_log10 r_p in
      np_try (np_binop np_div rho_150pc (Scalar (Fin 10000000))) g (\<lambda>d.
      let y = np_map np_log10 d in
      np_try (np_len y) g (\<lambda>n.
      np_try (np_binop np_mul (Arr (replicate n (Fin 1))) (Scalar (Fin 100000))) g (\<lambda>e.
      np_try (np_binop np_div e (Scalar (Fin 10000000))) g (\<lambda>yerr.
      case scipy_minimize E
             \<lparr>mz_fun = nl_sim, mz_x0 = [Fin 1, Fin 0], mz_args = (x, y, yerr),
              mz_bounds = Some [(Fin (- 2), Fin 2), (Fin (- 2), Fin 2)]\<rparr>
             (np_random_seed E 42) of
        (r, g1) \<Rightarrow> np_try r g1 (\<lambda>soln. run_mcmc_sim E x y yerr soln g1))))))"

section \<open>The likelihoods over an arbitrary arithmetic\<close>

text \<open>
  The two likelihoods once more, with the arithmetic as a parameter: \<open>a_add\<close>,
  \<open>a_sub\<close>, \<open>a_mul\<close> and \<open>a_div\<close> are the four operations on two values,
  \<open>a_square\<close> is \<^verbatim>\<open>v ** 2\<close>, \<open>a_pow10\<close> is \<^verbatim>\<open>10 ** v\<close>, \<open>a_log\<close> is
  \<^verbatim>\<open>np.log\<close>, \<open>a_sum\<close> is \<^verbatim>\<open>np.sum\<close> of the entries of an array (in whatever
  order it adds them) and \<open>a_pi\<close> is \<^verbatim>\<open>np.pi\<close>. Nothing is assumed about them, so
  what is proved of \<open>log_likelihood_in\<close> and \<open>log_likelihood_sim_in\<close> holds
  however \<^verbatim>\<open>float64\<close> rounds, overflows and underflows. Broadcasting and the
  order of the operations are those of the source, as above.
\<close>

record arith =
  a_add :: "npfloat \<Rightarrow> npfloat \<Rightarrow> npfloat"
  a_sub :: "npfloat \<Rightarrow> npfloat \<Rightarrow> npfloat"
  a_mul :: "npfloat \<Rightarrow> npfloat \<Rightarrow> npfloat"
  a_div :: "npfloat \<Rightarrow> npfloat \<Rightarrow> npfloat"
  a_square :: "npfloat \<Rightarrow> npfloat"
  a_pow10 :: "npfloat \<Rightarrow> npfloat"
  a_log :: "npfloat \<Rightarrow> npfloat"
  a_sum :: "npfloat list \<Rightarrow> npfloat"
  a_pi :: npfloat

text \<open>The in-place \<^verbatim>\<open>a += b\<close> with the addition as a parameter.\<close>

fun np_inplace :: "(npfloat \<Rightarrow> npfloat \<Rightarrow> npfloat) \<Rightarrow> ndarray \<Rightarrow> ndarray \<Rightarrow> ndarray res" where
  "np_inplace f (Scalar a) b = np_binop f (Scalar a) b"
| "np_inplace f (Arr xs) (Scalar b) = Inr (Arr (map (\<lambda>x. f x b) xs))"
| "np_inplace f (Arr xs) (Arr ys) =
     (if length xs = length ys then Inr (Arr (map2 f xs ys))
      else if length ys = 1 then Inr (Arr (map (\<lambda>x. f x (hd ys)) xs))
      else Inl ValueError)"

definition np_sum_in :: "arith \<Rightarrow> ndarray \<Rightarrow> npfloat" where
  "np_sum_in A a = (case a of Scalar v \<Rightarrow> v | Arr vs \<Rightarrow> a_sum A vs)"

definition log_model_in :: "arith \<Rightarrow> ndarray \<Rightarrow> npfloat \<Rightarrow> npfloat \<Rightarrow> ndarray res" where
  "log_model_in A x q m =
     np_bind (np_binop (a_mul A) (Scalar m) x) (\<lambda>mx. np_binop (a_add A) (Scalar q) mx)"

definition sigma2_in :: "arith \<Rightarrow> npfloat \<Rightarrow> ndarray \<Rightarrow> ndarray \<Rightarrow> ndarray \<Rightarrow> ndarray \<Rightarrow> ndarray res" where
  "sigma2_in A m model x xerr yerr =
     np_bind (np_binop (a_mul A) (Scalar m) (np_map (a_pow10 A) model)) (\<lambda>slope.
     np_bind (np_binop (a_div A) xerr (np_map (a_pow10 A) x)) (\<lambda>relx.
     np_bind (np_binop (a_mul A) (np_map (a_square A) slope) (np_map (a_square A) relx)) (\<lambda>varx.
     np_binop (a_add A) (np_map (a_square A) yerr) varx)))"

definition log_likelihood_in :: "arith \<Rightarrow> theta \<Rightarrow> ndarray \<Rightarrow> ndarray \<Rightarrow> ndarray \<Rightarrow> ndarray \<Rightarrow> npfloat res" where
  "log_likelihood_in A th x y xerr yerr =
     (case th of (q, m) \<Rightarrow>
        np_bind (log_model_in A x q m) (\<lambda>model.
        np_bind (sigma2_in A m model x xerr yerr) (\<lambda>s2.
        np_bind (np_binop (a_sub A) (np_map (a_pow10 A) y) (np_map (a_pow10 A) model)) (\<lambda>resid.
        np_bind (np_binop (a_div A) (np_map (a_square A) resid) s2) (\<lambda>ll.
        np_bind (np_binop (a_mul A) (Scalar (a_mul A (Fin 2) (a_pi A))) s2) (\<lambda>tps.
        np_bind (np_inplace (a_add A) ll (np_map (a_log A) tps)) (\<lambda>ll'.
        Inr (a_mul A (Fin (- (1 / 2))) (np_sum_in A ll')))))))))"

definition log_likelihood_sim_in :: "arith \<Rightarrow> theta \<Rightarrow> ndarray \<Rightarrow> ndarray \<Rightarrow> ndarray \<Rightarrow> npfloat res" where
  "log_likelihood_sim_in A th x y yerr =
     (case th of (q, m) \<Rightarrow>
        np_bind (log_model_in A x q m) (\<lambda>model.
        np_bind (np_binop (a_sub A) (np_map (a_pow10 A) y) (np_map (a_pow10 A) model)) (\<lambda>resid.
        np_bind (np_binop (a_div A) (np_map (a_square A) resid) (np_map (a_square A) yerr)) (\<lambda>ll.
        Inr (a_mul A (Fin (- (1 / 2))) (np_sum_in A ll))))))"

text \<open>
  Two arithmetics. \<open>exact_arith\<close> is the exact one of the first section: with it the
  two functions are \<open>log_likelihood\<close> and \<open>log_likelihood_sim\<close> (lemmas
  \<open>log_likelihood_in_exact\<close> and \<open>log_likelihood_sim_in_exact\<close>), and a result is
  the value of the formula over the reals. \<open>ranged_arith\<close> differs in the power of
  ten, which has the range of \<^verbatim>\<open>float64\<close>: there is no positive \<^verbatim>\<open>float64\<close> below
  \<open>10^-324\<close>, so the power underflows to zero below that exponent, and none from
  \<open>10^309\<close> up, so it overflows to infinity from there.
\<close>

definition exact_arith :: arith where
  "exact_arith =
     \<lparr>a_add = np_add, a_sub = np_sub, a_mul = np_mul, a_div = np_div,
      a_square = np_square, a_pow10 = np_pow10, a_log = np_log,
      a_sum = (\<lambda>vs. foldr np_add vs (Fin 0)), a_pi = Fin pi\<rparr>"

fun ranged_pow10 :: "npfloat \<Rightarrow> npfloat" where
  "ranged_pow10 (Fin a) = (if a < - 324 then Fin 0 else if 309 \<le> a then PInf else Fin (10 powr a))"
| "ranged_pow10 PInf = PInf"
| "ranged_pow10 NInf = Fin 0"
| "ranged_pow10 NaN = NaN"

definition ranged_arith :: arith where
  "ranged_arith = exact_arith\<lparr>a_pow10 := ranged_pow10\<rparr>"

section \<open>The formulas of the specification\<close>

text \<open>
  The specification states the likelihoods point by point, as sums over the index of
  the data. These definitions follow its words, in the arithmetic of the module:
  \<open>sum_upto n f\<close> is the sum of \<open>f 0, \<dots>, f (n - 1)\<close>, \<open>pt_model\<close> is the
  model \<open>q + m \<cdot> x\<^sub>i\<close>, \<open>pt_sigma2\<close> the effective variance of one point and
  \<open>pt_resid2\<close> its squared residual.
\<close>

primrec sum_upto :: "nat \<Rightarrow> (nat \<Rightarrow> npfloat) \<Rightarrow> npfloat" where
  "sum_upto 0 f = Fin 0"
| "sum_upto (Suc n) f = np_add (sum_upto n f) (f n)"

definition pt_model :: "npfloat \<Rightarrow> npfloat \<Rightarrow> npfloat \<Rightarrow> npfloat" where
  "pt_model q m xi = np_add q (np_mul m xi)"

definition pt_sigma2 :: "npfloat \<Rightarrow> npfloat \<Rightarrow> npfloat \<Rightarrow> npfloat \<Rightarrow> npfloat \<Rightarrow> npfloat" where
  "pt_sigma2 q m xi xerri yerri =
     np_add (np_square yerri)
       (np_mul (np_square (np_mul m (np_pow10 (pt_model q m xi))))
               (np_square (np_div xerri (np_pow10 xi))))"

definition pt_resid2 :: "npfloat \<Rightarrow> npfloat \<Rightarrow> npfloat \<Rightarrow> npfloat \<Rightarrow> npfloat" where
  "pt_resid2 q m xi yi = np_square (np_sub (np_pow10 yi) (np_pow10 (pt_model q m xi)))"




text \<open>One coordinate of the parameter lies strictly inside the prior's box.\<close>

definition in_open_box :: "npfloat \<Rightarrow> bool" where
  "in_open_box v = (case v of Fin a \<Rightarrow> - 2 < a \<and> a < 2 | PInf \<Rightarrow> False | NInf \<Rightarrow> False | NaN \<Rightarrow> False)"

text \<open>
  A stand-in for the three libraries, to run the fits on concrete data: the generator
  state is a number, seeding stores the seed, and the optimiser answers with the state
  it is called in, so a result shows which state the call saw.
\<close>

definition probe_externals :: "(nat, 'a) externals" where
  "probe_externals =
     \<lparr>np_random_seed = (\<lambda>n. n),
      np_random_draw = (\<lambda>g k. 0),
      np_random_advance = (\<lambda>g k. g + k),
      scipy_minimize = (\<lambda>c g. (Inr (Fin (real g), Fin 0), g)),
      emcee_chain = (\<lambda>c g. (Inr (em_pos c), g))\<rparr>"

section \<open>Arithmetic and array lemmas\<close>

lemma np_add_commute: "np_add a b = np_add b a"
  by (cases a; cases b) simp_all

lemma np_add_assoc: "np_add (np_add a b) c = np_add a (np_add b c)"
  by (cases a; cases b; cases c) simp_all

lemma np_add_zero [simp]: "np_add (Fin 0) a = a" "np_add a (Fin 0) = a"
  by (cases a; simp)+

lemma np_add_NaN_right [simp]: "np_add a NaN = NaN"
  by (cases a) simp_all

lemma np_mul_NaN_right [simp]: "np_mul a NaN = NaN"
  by (cases a) simp_all

lemma np_square_neg: "np_square (np_neg a) = np_square a"
  by (cases a) simp_all

lemma foldr_np_add_shift: "foldr np_add vs (np_add a z) = np_add a (foldr np_add vs z)"
  by (induction vs) (simp_all add: np_add_assoc np_add_commute [of a])

lemma foldr_tab: "foldr np_add (map f [0..<n]) (Fin 0) = sum_upto n f"
proof (induction n)
  case 0
  show ?case by simp
next
  case (Suc n)
  have "foldr np_add (map f [0..<Suc n]) (Fin 0) = foldr np_add (map f [0..<n]) (np_add (f n) (Fin 0))"
    by simp
  also have "\<dots> = np_add (f n) (sum_upto n f)"
    using Suc by (simp only: foldr_np_add_shift)
  finally show ?case by (simp add: np_add_commute)
qed

lemma tabulate: "length xs = n \<Longrightarrow> map (\<lambda>i. xs ! i) [0..<n] = xs"
  by (auto simp: map_nth)

lemma map2_tab: "map2 h (map f [0..<n]) (map g [0..<n]) = map (\<lambda>i. h (f i) (g i)) [0..<n]"
  by (rule nth_equalityI) simp_all

lemma replicate_tab: "replicate n c = map (\<lambda>i. c) [0..<n]"
  by (simp add: map_replicate_const)

lemma np_bind_Inr [simp]: "np_bind (Inr v) f = f v"
  by (simp add: np_bind_def)

lemma np_bind_Inl [simp]: "np_bind (Inl e) f = Inl e"
  by (simp add: np_bind_def)

lemma np_try_Inr [simp]: "np_try (Inr v) g k = k v"
  by (simp add: np_try_def)

lemma np_try_Inl [simp]: "np_try (Inl e) g k = (Inl e, g)"
  by (simp add: np_try_def)

lemma fst_np_try: "fst (np_try r g k) = (case r of Inl e \<Rightarrow> Inl e | Inr v \<Rightarrow> fst (k v))"
  by (simp add: np_try_def split: sum.splits)

lemma np_map_tab: "np_map g (Arr (map f [0..<n])) = Arr (map (\<lambda>i. g (f i)) [0..<n])"
  by (simp add: np_map_def)

lemma np_binop_tab:
  "np_binop h (Arr (map f [0..<n])) (Arr (map g [0..<n])) = Inr (Arr (map (\<lambda>i. h (f i) (g i)) [0..<n]))"
  by (simp add: map2_tab)

lemma np_binop_scalar_tab:
  "np_binop h (Scalar a) (Arr (map f [0..<n])) = Inr (Arr (map (\<lambda>i. h a (f i)) [0..<n]))"
  by simp

lemma np_iadd_tab:
  "np_iadd (Arr (map f [0..<n])) (Arr (map g [0..<n])) = Inr (Arr (map (\<lambda>i. np_add (f i) (g i)) [0..<n]))"
  by (simp add: map2_tab)

lemma np_sum_tab: "np_sum (Arr (map f [0..<n])) = sum_upto n f"
  by (simp add: np_sum_def foldr_tab)

lemmas tab_simps = np_map_tab np_binop_tab np_binop_scalar_tab np_iadd_tab np_sum_tab

lemma sum_upto_cong: "(\<And>i. i < n \<Longrightarrow> f i = g i) \<Longrightarrow> sum_upto n f = sum_upto n g"
  by (induction n) simp_all

lemma sum_upto_NaN: "0 < n \<Longrightarrow> sum_upto n (\<lambda>i. NaN) = NaN"
  by (cases n) simp_all

lemma sum_upto_PInf_or_NaN:
  "(\<And>i. i < Suc n \<Longrightarrow> f i = PInf \<or> f i = NaN) \<Longrightarrow> sum_upto (Suc n) f = PInf \<or> sum_upto (Suc n) f = NaN"
proof (induction n)
  case 0
  then have "f 0 = PInf \<or> f 0 = NaN" by simp
  then show ?case by auto
next
  case (Suc n)
  then have "sum_upto (Suc n) f = PInf \<or> sum_upto (Suc n) f = NaN" by simp
  moreover have "f (Suc n) = PInf \<or> f (Suc n) = NaN" using Suc.prems by simp
  ultimately show ?case by auto
qed

section \<open>The likelihoods, point by point\<close>

lemma log_model_tab:
  "log_model (Arr (map f [0..<n])) q m = Inr (Arr (map (\<lambda>i. pt_model q m (f i)) [0..<n]))"
  by (simp only: log_model_def tab_simps np_bind_Inr pt_model_def)

lemma sigma2_tab:
  "sigma2 m (Arr (map (\<lambda>i. pt_model q m (fx i)) [0..<n])) (Arr (map fx [0..<n]))
      (Arr (map fxe [0..<n])) (Arr (map fye [0..<n]))
   = Inr (Arr (map (\<lambda>i. pt_sigma2 q m (fx i) (fxe i) (fye i)) [0..<n]))"
  by (simp only: sigma2_def tab_simps np_bind_Inr pt_sigma2_def)

lemma log_likelihood_tab:
  "log_likelihood (q, m) (Arr (map fx [0..<n])) (Arr (map fy [0..<n]))
      (Arr (map fxe [0..<n])) (Arr (map fye [0..<n]))
   = Inr (np_mul (Fin (- (1 / 2)))
       (sum_upto n (\<lambda>i. np_add (np_div (pt_resid2 q m (fx i) (fy i)) (pt_sigma2 q m (fx i) (fxe i) (fye i)))
                                (np_log (np_mul (Fin (2 * pi)) (pt_sigma2 q m (fx i) (fxe i) (fye i)))))))"
  by (simp only: log_likelihood_def prod.case log_model_tab sigma2_tab tab_simps np_bind_Inr pt_resid2_def)

lemma log_likelihood_sim_tab:
  "log_likelihood_sim (q, m) (Arr (map fx [0..<n])) (Arr (map fy [0..<n])) (Arr (map fye [0..<n]))
   = Inr (np_mul (Fin (- (1 / 2)))
       (sum_upto n (\<lambda>i. np_div (pt_resid2 q m (fx i) (fy i)) (np_square (fye i)))))"
  by (simp only: log_likelihood_sim_def prod.case log_model_tab tab_simps np_bind_Inr pt_resid2_def)

lemma log_likelihood_resid:
  "log_likelihood (q, m) (Arr (map fx [0..<n])) (Arr (map fy [0..<n])) xerr yerr
   = np_bind (sigma2 m (Arr (map (\<lambda>i. pt_model q m (fx i)) [0..<n])) (Arr (map fx [0..<n])) xerr yerr) (\<lambda>s2.
     np_bind (np_binop np_div (Arr (map (\<lambda>i. pt_resid2 q m (fx i) (fy i)) [0..<n])) s2) (\<lambda>ll.
     np_bind (np_binop np_mul (Scalar (Fin (2 * pi))) s2) (\<lambda>tps.
     np_bind (np_iadd ll (np_map np_log tps)) (\<lambda>ll'.
     Inr (np_mul (Fin (- (1 / 2))) (np_sum ll'))))))"
  by (simp only: log_likelihood_def prod.case log_model_tab tab_simps np_bind_Inr pt_resid2_def)

lemma log_likelihood_sim_resid:
  "log_likelihood_sim (q, m) (Arr (map fx [0..<n])) (Arr (map fy [0..<n])) yerr
   = np_bind (np_binop np_div (Arr (map (\<lambda>i. pt_resid2 q m (fx i) (fy i)) [0..<n])) (np_map np_square yerr)) (\<lambda>ll.
     Inr (np_mul (Fin (- (1 / 2))) (np_sum ll)))"
  by (simp only: log_likelihood_sim_def prod.case log_model_tab tab_simps np_bind_Inr pt_resid2_def)

lemma pt_sigma2_zero:
  assumes "np_isfinite q" "np_isfinite m" "np_isfinite xi" "np_isfinite xe"
    and "m = Fin 0 \<or> xe = Fin 0"
  shows "pt_sigma2 q m xi xe (Fin 0) = Fin 0"
  using assms by (cases q; cases m; cases xi; cases xe) (auto simp: pt_sigma2_def pt_model_def)

lemma square_over_zero: "np_div (np_square v) (Fin 0) = PInf \<or> np_div (np_square v) (Fin 0) = NaN"
  by (cases v) (auto simp: not_less power2_eq_square [symmetric])

lemma square_over_zero_plus_NInf: "np_add (np_div (np_square v) (Fin 0)) NInf = NaN"
  using square_over_zero [of v] by auto

lemma np_less_box: "(np_less (Fin (- 2)) v \<and> np_less v (Fin 2)) = in_open_box v"
  by (cases v) (simp_all add: in_open_box_def)

lemma log_prior_cases: "log_prior th = Fin 0 \<or> log_prior th = NInf"
  by (cases th) (simp add: log_prior_def)

section \<open>The likelihoods over an arbitrary arithmetic, point by point\<close>








lemma np_inplace_np_add: "np_inplace np_add a b = np_iadd a b"
  by (cases a; cases b) simp_all

lemma np_sum_in_exact: "np_sum_in exact_arith a = np_sum a"
  by (cases a) (simp_all add: np_sum_in_def np_sum_def exact_arith_def)

lemma log_model_in_exact: "log_model_in exact_arith x q m = log_model x q m"
  by (simp add: log_model_in_def log_model_def exact_arith_def)

lemma sigma2_in_exact: "sigma2_in exact_arith m model x xerr yerr = sigma2 m model x xerr yerr"
  by (simp add: sigma2_in_def sigma2_def exact_arith_def)

lemma log_likelihood_in_exact:
  "log_likelihood_in exact_arith th x y xerr yerr = log_likelihood th x y xerr yerr"
  by (cases th)
    (simp add: log_likelihood_in_def log_likelihood_def log_model_in_exact sigma2_in_exact
      np_sum_in_exact, simp add: exact_arith_def np_inplace_np_add)

lemma log_likelihood_sim_in_exact:
  "log_likelihood_sim_in exact_arith th x y yerr = log_likelihood_sim th x y yerr"
  by (cases th)
    (simp add: log_likelihood_sim_in_def log_likelihood_sim_def log_model_in_exact
      np_sum_in_exact, simp add: exact_arith_def)

section \<open>The calls of the fits\<close>


lemma run_best_fit_for_sim_call:
  "run_best_fit_for_sim E r_p (Arr ds) g
     = scipy_minimize E
         \<lparr>mz_fun = nl_sim, mz_x0 = [Fin 1, Fin 0],
          mz_args = (np_map np_log10 r_p,
                     Arr (map (\<lambda>d. np_log10 (np_div d (Fin 10000000))) ds),
                     Arr (replicate (length ds) (Fin (1 / 100)))),
          mz_bounds = Some [(Fin (- 2), Fin 2), (Fin (- 2), Fin 2)]\<rparr>
         (np_random_seed E 42)"
  by (simp add: run_best_fit_for_sim_def Let_def np_map_def np_len_def o_def)

lemma run_best_fit_for_sim_with_mcmc_call:
  "run_best_fit_for_sim_with_mcmc E r_p (Arr ds) g
     = (case scipy_minimize E
         \<lparr>mz_fun = nl_sim, mz_x0 = [Fin 1, Fin 0],
          mz_args = (np_map np_log10 r_p,
                     Arr (map (\<lambda>d. np_log10 (np_div d (Fin 10000000))) ds),
                     Arr (replicate (length ds) (Fin (1 / 100)))),
          mz_bounds = Some [(Fin (- 2), Fin 2), (Fin (- 2), Fin 2)]\<rparr>
         (np_random_seed E 42) of
        (r, g1) \<Rightarrow> np_try r g1 (\<lambda>soln.
          run_mcmc_sim E (np_map np_log10 r_p)
            (Arr (map (\<lambda>d. np_log10 (np_div d (Fin 10000000))) ds))
            (Arr (replicate (length ds) (Fin (1 / 100)))) soln g1))"
  by (simp add: run_best_fit_for_sim_with_mcmc_def Let_def np_map_def np_len_def o_def)

section \<open>The claims\<close>

subsection \<open>The likelihood of the observed data\<close>




subsection \<open>The likelihood of simulated data\<close>




text \<open>
  Nor does the relation hold whenever \<open>yerr\<close> has no zero entry: at
  \<open>theta = (0, 0)\<close>, \<open>x = [-400]\<close>, \<open>y = [1]\<close>, \<open>yerr = [1]\<close> the power \<open>10^x\<close>
  underflows to zero, so \<^verbatim>\<open>log_likelihood\<close> at \<open>xerr = 0\<close> is NaN, while
  \<^verbatim>\<open>log_likelihood_sim\<close>, which does not divide by \<open>10^x\<close>, is \<open>-40.5\<close>.
\<close>

lemma sim_relation_fails_at_underflow:
  "log_likelihood_sim_in ranged_arith (Fin 0, Fin 0) (Arr [Fin (- 400)]) (Arr [Fin 1]) (Arr [Fin 1])
     = Inr (Fin (- (81 / 2)))
   \<and> log_likelihood_in ranged_arith (Fin 0, Fin 0) (Arr [Fin (- 400)]) (Arr [Fin 1]) (Scalar (Fin 0))
      (Arr [Fin 1]) = Inr NaN"
  by (simp add: log_likelihood_in_def log_likelihood_sim_in_def log_model_in_def sigma2_in_def
      np_map_def np_sum_in_def np_sub_def exact_arith_def ranged_arith_def)

subsection \<open>The prior\<close>

text \<open>
  Claim C4. \<^verbatim>\<open>log_prior\<close> is \<open>0.0\<close> when \<open>-2 < q < 2\<close> and \<open>-2 < m < 2\<close>, and
  \<open>-inf\<close> everywhere else; in particular it is \<open>-inf\<close> on the boundary, at
  \<open>q = \<plusminus>2\<close> or \<open>m = \<plusminus>2\<close>.
\<close>

theorem log_prior_box:
  "log_prior (q, m) = (if in_open_box q \<and> in_open_box m then Fin 0 else NInf)
   \<and> log_prior (Fin 2, m) = NInf \<and> log_prior (Fin (- 2), m) = NInf
   \<and> log_prior (q, Fin 2) = NInf \<and> log_prior (q, Fin (- 2)) = NInf"
  by (simp add: log_prior_def np_less_box in_open_box_def)

theorem log_prior_box_witness:
  "log_prior (Fin 0, Fin 1) = Fin 0 \<and> log_prior (Fin 0, Fin (- 3)) = NInf
   \<and> log_prior (Fin 2, Fin 0) = NInf \<and> log_prior (NaN, Fin 0) = NInf"
  using log_prior_box [of "Fin 0" "Fin 1"] log_prior_box [of "Fin 0" "Fin (- 3)"]
    log_prior_box [of "Fin 2" "Fin 0"] log_prior_box [of NaN "Fin 0"]
  by (simp add: in_open_box_def)

subsection \<open>The posteriors\<close>

text \<open>
  Claim C5. When \<^verbatim>\<open>log_prior\<close> is \<open>-inf\<close>, \<^verbatim>\<open>log_posterior\<close> and
  \<^verbatim>\<open>log_posterior_sim\<close> return \<open>-inf\<close> whatever the data are, also data on
  which the likelihood would raise: the likelihood is not evaluated. Otherwise they
  return the prior plus the likelihood.
\<close>

theorem log_posterior_short_circuit:
  "(log_prior th = NInf \<longrightarrow>
      log_posterior th x y xerr yerr = Inr NInf \<and> log_posterior_sim th x y yerr = Inr NInf)
   \<and> (log_prior th \<noteq> NInf \<longrightarrow>
      log_posterior th x y xerr yerr
        = np_bind (log_likelihood th x y xerr yerr) (\<lambda>l. Inr (np_add (log_prior th) l))
      \<and> log_posterior_sim th x y yerr
        = np_bind (log_likelihood_sim th x y yerr) (\<lambda>l. Inr (np_add (log_prior th) l)))"
  using log_prior_cases [of th]
  by (auto simp: log_posterior_def log_posterior_sim_def Let_def)

theorem log_posterior_short_circuit_witness:
  "log_prior (Fin 3, Fin 0) = NInf
   \<and> log_likelihood (Fin 3, Fin 0) (Arr [Fin 0, Fin 0]) (Arr [Fin 0, Fin 0, Fin 0])
        (Arr [Fin 0, Fin 0]) (Arr [Fin 1, Fin 1]) = Inl ValueError
   \<and> log_posterior (Fin 3, Fin 0) (Arr [Fin 0, Fin 0]) (Arr [Fin 0, Fin 0, Fin 0])
        (Arr [Fin 0, Fin 0]) (Arr [Fin 1, Fin 1]) = Inr NInf
   \<and> log_posterior_sim (Fin 3, Fin 0) (Arr [Fin 0, Fin 0]) (Arr [Fin 0, Fin 0, Fin 0])
        (Arr [Fin 1, Fin 1]) = Inr NInf
   \<and> log_prior (Fin 0, Fin 0) = Fin 0
   \<and> log_posterior_sim (Fin 0, Fin 0) (Arr [Fin 0]) (Arr [Fin 1]) (Arr [Fin 1]) = Inr (Fin (- (81 / 2)))"
proof -
  have p: "log_prior (Fin 3, Fin 0) = NInf" "log_prior (Fin 0, Fin 0) = Fin 0"
    by (simp_all add: log_prior_def)
  have l: "log_likelihood (Fin 3, Fin 0) (Arr [Fin 0, Fin 0]) (Arr [Fin 0, Fin 0, Fin 0])
        (Arr [Fin 0, Fin 0]) (Arr [Fin 1, Fin 1]) = Inl ValueError"
    by (simp add: log_likelihood_def log_model_def sigma2_def np_map_def)
  have s: "log_likelihood_sim (Fin 0, Fin 0) (Arr [Fin 0]) (Arr [Fin 1]) (Arr [Fin 1]) = Inr (Fin (- (81 / 2)))"
    by (simp add: log_likelihood_sim_def log_model_def np_map_def np_sum_def np_sub_def)
  show ?thesis
    using log_posterior_short_circuit [of "(Fin 3, Fin 0)" "Arr [Fin 0, Fin 0]"
        "Arr [Fin 0, Fin 0, Fin 0]" "Arr [Fin 0, Fin 0]" "Arr [Fin 1, Fin 1]"]
      log_posterior_short_circuit [of "(Fin 0, Fin 0)" "Arr [Fin 0]" "Arr [Fin 1]" "Arr [Fin 0]" "Arr [Fin 1]"]
      p l s
    by simp
qed

subsection \<open>The sign of the residual\<close>

text \<open>
  Claim C6. The likelihoods depend on the observations only through the squared
  residual: when two arrays of observations \<open>y1\<close> and \<open>y2\<close> give residuals
  \<open>10^y - 10^(q + m \<cdot> x)\<close> of opposite sign at every index, both
  \<^verbatim>\<open>log_likelihood\<close> and \<^verbatim>\<open>log_likelihood_sim\<close> return the same on \<open>y1\<close> as
  on \<open>y2\<close>, for any \<open>xerr\<close> and \<open>yerr\<close>.
\<close>

theorem likelihood_residual_sign_symmetry:
  assumes len: "length xs = n" "length ys1 = n" "length ys2 = n"
    and flip: "\<forall>i<n. np_sub (np_pow10 (ys2 ! i)) (np_pow10 (pt_model q m (xs ! i)))
                 = np_neg (np_sub (np_pow10 (ys1 ! i)) (np_pow10 (pt_model q m (xs ! i))))"
  shows "log_likelihood (q, m) (Arr xs) (Arr ys1) xerr yerr
           = log_likelihood (q, m) (Arr xs) (Arr ys2) xerr yerr
         \<and> log_likelihood_sim (q, m) (Arr xs) (Arr ys1) yerr
           = log_likelihood_sim (q, m) (Arr xs) (Arr ys2) yerr"
proof -
  have sq: "map (\<lambda>i. pt_resid2 q m (xs ! i) (ys2 ! i)) [0..<n]
          = map (\<lambda>i. pt_resid2 q m (xs ! i) (ys1 ! i)) [0..<n]"
    using flip by (simp add: pt_resid2_def np_square_neg)
  have "log_likelihood (q, m) (Arr (map (\<lambda>i. xs ! i) [0..<n])) (Arr (map (\<lambda>i. ys1 ! i) [0..<n])) xerr yerr
      = log_likelihood (q, m) (Arr (map (\<lambda>i. xs ! i) [0..<n])) (Arr (map (\<lambda>i. ys2 ! i) [0..<n])) xerr yerr"
    by (simp only: log_likelihood_resid sq)
  moreover have "log_likelihood_sim (q, m) (Arr (map (\<lambda>i. xs ! i) [0..<n])) (Arr (map (\<lambda>i. ys1 ! i) [0..<n])) yerr
      = log_likelihood_sim (q, m) (Arr (map (\<lambda>i. xs ! i) [0..<n])) (Arr (map (\<lambda>i. ys2 ! i) [0..<n])) yerr"
    by (simp only: log_likelihood_sim_resid sq)
  ultimately show ?thesis
    using len by (simp only: tabulate)
qed

theorem likelihood_residual_sign_symmetry_witness:
  "np_sub (np_pow10 (Fin (log 10 (3 / 2)))) (np_pow10 (pt_model (Fin 0) (Fin 0) (Fin 0)))
     = np_neg (np_sub (np_pow10 (Fin (log 10 (1 / 2)))) (np_pow10 (pt_model (Fin 0) (Fin 0) (Fin 0))))
   \<and> log_likelihood (Fin 0, Fin 0) (Arr [Fin 0]) (Arr [Fin (log 10 (1 / 2))]) (Arr [Fin 0]) (Arr [Fin 1])
     = log_likelihood (Fin 0, Fin 0) (Arr [Fin 0]) (Arr [Fin (log 10 (3 / 2))]) (Arr [Fin 0]) (Arr [Fin 1])
   \<and> log_likelihood_sim (Fin 0, Fin 0) (Arr [Fin 0]) (Arr [Fin (log 10 (1 / 2))]) (Arr [Fin 1])
     = log_likelihood_sim (Fin 0, Fin 0) (Arr [Fin 0]) (Arr [Fin (log 10 (3 / 2))]) (Arr [Fin 1])"
proof -
  have h: "np_sub (np_pow10 (Fin (log 10 (3 / 2)))) (np_pow10 (pt_model (Fin 0) (Fin 0) (Fin 0)))
     = np_neg (np_sub (np_pow10 (Fin (log 10 (1 / 2)))) (np_pow10 (pt_model (Fin 0) (Fin 0) (Fin 0))))"
    by (simp add: np_sub_def pt_model_def)
  show ?thesis
    using h likelihood_residual_sign_symmetry [of "[Fin 0]" 1 "[Fin (log 10 (1 / 2))]"
        "[Fin (log 10 (3 / 2))]" "Fin 0" "Fin 0" "Arr [Fin 0]" "Arr [Fin 1]"]
    by simp
qed

subsection \<open>The point-estimate fits\<close>



text \<open>
  Claim C8. \<^verbatim>\<open>run_best_fit_for_sim\<close> is deterministic: whatever state the global
  generator is in when the function is called, equal inputs give the same returned
  pair (or the same exception), because the optimiser only ever sees the state seeded
  with 42.
\<close>

theorem run_best_fit_for_sim_deterministic:
  "fst (run_best_fit_for_sim E r_p rho_150pc g) = fst (run_best_fit_for_sim E r_p rho_150pc g')"
  by (simp add: run_best_fit_for_sim_def Let_def fst_np_try split: sum.splits)

theorem run_best_fit_for_sim_deterministic_witness:
  "fst (run_best_fit_for_sim probe_externals (Arr [Fin 10]) (Arr [Fin 10000000]) 0)
     = fst (run_best_fit_for_sim probe_externals (Arr [Fin 10]) (Arr [Fin 10000000]) 7)"
  using run_best_fit_for_sim_deterministic [of probe_externals "Arr [Fin 10]" "Arr [Fin 10000000]" 0 7]
  by simp

subsection \<open>A zero variance\<close>

text \<open>
  Claim C9. Neither likelihood checks its inputs or guards the division by the
  variance. On data of length \<open>n > 0\<close> where every entry of \<open>yerr\<close> is zero, and
  for \<^verbatim>\<open>log_likelihood\<close> also \<open>m = 0\<close> or every entry of \<open>xerr\<close> is zero (the rest
  finite), \<^verbatim>\<open>sigma2\<close> is exactly zero at every index, the division is carried out,
  no exception is raised, and what is returned is not finite: NaN from
  \<^verbatim>\<open>log_likelihood\<close>, \<open>-inf\<close> or NaN from \<^verbatim>\<open>log_likelihood_sim\<close>.
\<close>

theorem zero_variance_unguarded:
  assumes len: "length xs = n" "length ys = n" "length xerrs = n" and pos: "0 < n"
    and fin: "np_isfinite q" "np_isfinite m" "\<forall>v\<in>set xs. np_isfinite v" "\<forall>v\<in>set xerrs. np_isfinite v"
    and zero: "m = Fin 0 \<or> (\<forall>v\<in>set xerrs. v = Fin 0)"
  shows "np_bind (log_model (Arr xs) q m)
           (\<lambda>model. sigma2 m model (Arr xs) (Arr xerrs) (Arr (replicate n (Fin 0))))
           = Inr (Arr (replicate n (Fin 0)))
         \<and> log_likelihood (q, m) (Arr xs) (Arr ys) (Arr xerrs) (Arr (replicate n (Fin 0))) = Inr NaN
         \<and> (log_likelihood_sim (q, m) (Arr xs) (Arr ys) (Arr (replicate n (Fin 0))) = Inr NInf
            \<or> log_likelihood_sim (q, m) (Arr xs) (Arr ys) (Arr (replicate n (Fin 0))) = Inr NaN)"
proof -
  have s2: "pt_sigma2 q m (xs ! i) (xerrs ! i) (Fin 0) = Fin 0" if "i < n" for i
    using that len fin zero by (intro pt_sigma2_zero) auto
  have "np_bind (log_model (Arr (map (\<lambda>i. xs ! i) [0..<n])) q m)
           (\<lambda>model. sigma2 m model (Arr (map (\<lambda>i. xs ! i) [0..<n])) (Arr (map (\<lambda>i. xerrs ! i) [0..<n]))
              (Arr (map (\<lambda>i. Fin 0) [0..<n])))
        = Inr (Arr (map (\<lambda>i. pt_sigma2 q m (xs ! i) (xerrs ! i) (Fin 0)) [0..<n]))"
    by (simp only: log_model_tab np_bind_Inr sigma2_tab)
  also have "\<dots> = Inr (Arr (map (\<lambda>i. Fin 0) [0..<n]))"
    using s2 by simp
  finally have A: "np_bind (log_model (Arr xs) q m)
           (\<lambda>model. sigma2 m model (Arr xs) (Arr xerrs) (Arr (replicate n (Fin 0))))
           = Inr (Arr (replicate n (Fin 0)))"
    using len by (simp only: tabulate replicate_tab)
  have "log_likelihood (q, m) (Arr (map (\<lambda>i. xs ! i) [0..<n])) (Arr (map (\<lambda>i. ys ! i) [0..<n]))
          (Arr (map (\<lambda>i. xerrs ! i) [0..<n])) (Arr (map (\<lambda>i. Fin 0) [0..<n]))
      = Inr (np_mul (Fin (- (1 / 2)))
       (sum_upto n (\<lambda>i. np_add (np_div (pt_resid2 q m (xs ! i) (ys ! i)) (pt_sigma2 q m (xs ! i) (xerrs ! i) (Fin 0)))
                                (np_log (np_mul (Fin (2 * pi)) (pt_sigma2 q m (xs ! i) (xerrs ! i) (Fin 0)))))))"
    by (rule log_likelihood_tab)
  also have "sum_upto n (\<lambda>i. np_add (np_div (pt_resid2 q m (xs ! i) (ys ! i)) (pt_sigma2 q m (xs ! i) (xerrs ! i) (Fin 0)))
                                (np_log (np_mul (Fin (2 * pi)) (pt_sigma2 q m (xs ! i) (xerrs ! i) (Fin 0)))))
      = sum_upto n (\<lambda>i. NaN)"
    by (rule sum_upto_cong) (simp add: s2 pt_resid2_def square_over_zero_plus_NInf)
  finally have B: "log_likelihood (q, m) (Arr xs) (Arr ys) (Arr xerrs) (Arr (replicate n (Fin 0))) = Inr NaN"
    using len pos by (simp only: tabulate replicate_tab [symmetric] sum_upto_NaN np_mul_NaN_right)
  obtain k where k: "n = Suc k" using pos by (cases n) auto
  have "sum_upto (Suc k) (\<lambda>i. np_div (pt_resid2 q m (xs ! i) (ys ! i)) (np_square (Fin 0))) = PInf
      \<or> sum_upto (Suc k) (\<lambda>i. np_div (pt_resid2 q m (xs ! i) (ys ! i)) (np_square (Fin 0))) = NaN"
    by (rule sum_upto_PInf_or_NaN) (simp add: pt_resid2_def square_over_zero)
  then have "np_mul (Fin (- (1 / 2))) (sum_upto n (\<lambda>i. np_div (pt_resid2 q m (xs ! i) (ys ! i)) (np_square (Fin 0)))) = NInf
      \<or> np_mul (Fin (- (1 / 2))) (sum_upto n (\<lambda>i. np_div (pt_resid2 q m (xs ! i) (ys ! i)) (np_square (Fin 0)))) = NaN"
    unfolding k by (auto simp: inf_times_def)
  moreover have "log_likelihood_sim (q, m) (Arr xs) (Arr ys) (Arr (replicate n (Fin 0)))
      = Inr (np_mul (Fin (- (1 / 2))) (sum_upto n (\<lambda>i. np_div (pt_resid2 q m (xs ! i) (ys ! i)) (np_square (Fin 0)))))"
    using log_likelihood_sim_tab [of q m "\<lambda>i. xs ! i" n "\<lambda>i. ys ! i" "\<lambda>i. Fin 0"] len
    by (simp only: tabulate replicate_tab [symmetric])
  ultimately have C: "log_likelihood_sim (q, m) (Arr xs) (Arr ys) (Arr (replicate n (Fin 0))) = Inr NInf
            \<or> log_likelihood_sim (q, m) (Arr xs) (Arr ys) (Arr (replicate n (Fin 0))) = Inr NaN"
    by auto
  from A B C show ?thesis by blast
qed

theorem zero_variance_unguarded_witness:
  "np_bind (log_model (Arr [Fin 0]) (Fin 0) (Fin 1))
      (\<lambda>model. sigma2 (Fin 1) model (Arr [Fin 0]) (Arr [Fin 0]) (Arr [Fin 0])) = Inr (Arr [Fin 0])
   \<and> log_likelihood (Fin 0, Fin 1) (Arr [Fin 0]) (Arr [Fin 1]) (Arr [Fin 0]) (Arr [Fin 0]) = Inr NaN
   \<and> log_likelihood_sim (Fin 0, Fin 1) (Arr [Fin 0]) (Arr [Fin 1]) (Arr [Fin 0]) = Inr NInf"
proof -
  have s: "log_likelihood_sim (Fin 0, Fin 1) (Arr [Fin 0]) (Arr [Fin 1]) (Arr [Fin 0]) = Inr NInf"
    by (simp add: log_likelihood_sim_def log_model_def np_map_def np_sum_def np_sub_def inf_times_def)
  show ?thesis
    using s zero_variance_unguarded [of "[Fin 0]" 1 "[Fin 1]" "[Fin 0]" "Fin 0" "Fin 1"]
    by simp
qed

subsection \<open>The uncertainty of simulated data\<close>

text \<open>
  Claim C10. In \<^verbatim>\<open>run_best_fit_for_sim\<close> and
  \<^verbatim>\<open>run_best_fit_for_sim_with_mcmc\<close> the uncertainty handed to the likelihood does
  not come from the data: for every array \<^verbatim>\<open>rho_150pc\<close> it is the array of the same
  length whose entries are all \<open>1e5 / 1e7 = 0.01\<close>, while \<open>y\<close> is
  \<open>log10 (rho_150pc / 1e7)\<close>.
\<close>

theorem sim_yerr_constant:
  "run_best_fit_for_sim E r_p (Arr ds) g
     = scipy_minimize E
         \<lparr>mz_fun = nl_sim, mz_x0 = [Fin 1, Fin 0],
          mz_args = (np_map np_log10 r_p,
                     Arr (map (\<lambda>d. np_log10 (np_div d (Fin 10000000))) ds),
                     Arr (replicate (length ds) (Fin (1 / 100)))),
          mz_bounds = Some [(Fin (- 2), Fin 2), (Fin (- 2), Fin 2)]\<rparr>
         (np_random_seed E 42)
   \<and> run_best_fit_for_sim_with_mcmc E r_p (Arr ds) g
     = (case scipy_minimize E
         \<lparr>mz_fun = nl_sim, mz_x0 = [Fin 1, Fin 0],
          mz_args = (np_map np_log10 r_p,
                     Arr (map (\<lambda>d. np_log10 (np_div d (Fin 10000000))) ds),
                     Arr (replicate (length ds) (Fin (1 / 100)))),
          mz_bounds = Some [(Fin (- 2), Fin 2), (Fin (- 2), Fin 2)]\<rparr>
         (np_random_seed E 42) of
        (r, g1) \<Rightarrow> np_try r g1 (\<lambda>soln.
          run_mcmc_sim E (np_map np_log10 r_p)
            (Arr (map (\<lambda>d. np_log10 (np_div d (Fin 10000000))) ds))
            (Arr (replicate (length ds) (Fin (1 / 100)))) soln g1))"
  by (simp only: run_best_fit_for_sim_call run_best_fit_for_sim_with_mcmc_call)

theorem sim_yerr_constant_witness:
  "run_best_fit_for_sim probe_externals (Arr [Fin 10]) (Arr [Fin 10000000, Fin 3]) 0
     = scipy_minimize probe_externals
         \<lparr>mz_fun = nl_sim, mz_x0 = [Fin 1, Fin 0],
          mz_args = (Arr [Fin 1], Arr [Fin 0, Fin (log 10 (3 / 10000000))],
                     Arr [Fin (1 / 100), Fin (1 / 100)]),
          mz_bounds = Some [(Fin (- 2), Fin 2), (Fin (- 2), Fin 2)]\<rparr> 42"
  using sim_yerr_constant [of probe_externals "Arr [Fin 10]" "[Fin 10000000, Fin 3]" 0]
  by (simp add: probe_externals_def np_map_def numeral_2_eq_2)

section \<open>Further properties\<close>

text \<open>
  The sampling call of \<^verbatim>\<open>run_mcmc\<close>: 64 walkers in 2 dimensions, each placed at
  \<^verbatim>\<open>soln.x\<close> plus 0.1 times a standard normal draw, the posterior of the observed
  data as the log-probability, 2000 steps, and the flattened chain read with
  \<^verbatim>\<open>discard=100\<close> and \<^verbatim>\<open>thin=15\<close>. How many samples that chain holds is decided
  inside the sampler.
\<close>

theorem run_mcmc_call:
  "run_mcmc E x y xerr yerr soln g
     = emcee_chain E
         \<lparr>em_nwalkers = 64, em_ndim = 2,
          em_log_prob_fn = (\<lambda>th (a, b, c, d). log_posterior th a b c d),
          em_args = (x, y, xerr, yerr),
          em_pos = map (\<lambda>i. [np_add (fst soln) (Fin (np_random_draw E g (2 * i) / 10)),
                              np_add (snd soln) (Fin (np_random_draw E g (2 * i + 1) / 10))])
                     [0..<64],
          em_nsteps = 2000, em_discard = 100, em_thin = 15, em_flat = True\<rparr>
         (np_random_advance E g 128)"
proof -
  have two: "[0..<2] = [0, Suc 0]"
    by (simp add: upt_rec)
  have ne: "[0..<64] \<noteq> []"
    by simp
  show ?thesis
    by (simp add: run_mcmc_def np_random_randn_def walkers_pos_def Let_def two hd_map [OF ne]
        o_def mult.commute numeral_2_eq_2)
qed

text \<open>The model is \<open>q + m \<cdot> x\<close> at every entry; \<^verbatim>\<open>log_model(x=0, q=1, m=5)\<close> is 1.\<close>

theorem log_model_example:
  "log_model (Scalar (Fin 0)) (Fin 1) (Fin 5) = Inr (Scalar (Fin 1))
   \<and> log_model (Arr xs) q m = Inr (Arr (map (\<lambda>v. np_add q (np_mul m v)) xs))"
  by (simp add: log_model_def o_def)

end
